theory Spec2Isabelle
  imports Complex_Main
begin

section \<open>The Logged combinator\<close>

text \<open>
  \<^verbatim>\<open>type Logged<T> = { value: T; logs: string[] }\<close> (example.ts, lines 27-30).
  The payload type \<open>T\<close> is the type parameter of the record.
\<close>

record 'a Logged =
  "value" :: 'a
  logs :: "string list"

text \<open>
  \<^verbatim>\<open>const returnLogged = (value) => ({ value, logs: [] })\<close> (lines 34-37).
\<close>

definition returnLogged :: "'a \<Rightarrow> 'a Logged" where
  "returnLogged v = \<lparr>value = v, logs = []\<rparr>"

text \<open>
  \<^verbatim>\<open>const bindLogged = (wrapped, fn) => {
    const next = fn(wrapped.value);
    return { value: next.value, logs: wrapped.logs.concat(next.logs) };
  }\<close> (lines 57-67). \<open>concat\<close> on two arrays of strings is list append.
\<close>

definition bindLogged :: "'a Logged \<Rightarrow> ('a \<Rightarrow> 'a Logged) \<Rightarrow> 'a Logged" where
  "bindLogged wrapped fn =
     (let next = fn (value wrapped)
      in \<lparr>value = value next, logs = logs wrapped @ logs next\<rparr>)"

text \<open>
  \<^verbatim>\<open>[f1, ..., fn].reduce((acc, fn) => chain(acc, fn), init)\<close> (lines 108-114 and
  176-179): \<open>Array.prototype.reduce\<close> with an initial value walks the array from
  index 0 upwards, feeding the accumulator through the callback; on the empty array it
  returns the initial value.
\<close>

fun reduce :: "('b \<Rightarrow> 'a \<Rightarrow> 'b) \<Rightarrow> 'b \<Rightarrow> 'a list \<Rightarrow> 'b" where
  "reduce cb acc [] = acc"
| "reduce cb acc (x # xs) = reduce cb (cb acc x) xs"

subsection \<open>Numbers and their printing\<close>

text \<open>
  A JavaScript \<open>number\<close> is an IEEE-754 double. Every finite double is a rational
  number, and the demonstration chains are computed with exact rationals: this agrees
  with the program wherever the exact result is itself a double, as it is for every
  number of the demonstration chains (5, 25, 50, 10, 2, 44). Rounding, \<open>NaN\<close>, the
  infinities and the negative zero are outside the type \<open>number\<close>; what is stated for
  every divisor and dividend is stated over an arbitrary arithmetic instead (see
  \<open>arithmetic\<close> below), of which the doubles are an instance.
\<close>

type_synonym number = rat

text \<open>
  A template literal \<^verbatim>\<open>`squared ${x}`\<close> prints \<open>x\<close> with \<open>Number::toString\<close>. On a
  safe integer (\<open>Number.isSafeInteger\<close>: integral, of magnitude at most \<open>2^53 - 1\<close>)
  that is the decimal notation with a leading minus sign for a negative number. The
  shortest round-trip notation of the other doubles is not modelled: \<open>toString\<close> is left
  unspecified there, so that nothing is proved about it.
\<close>

definition digit :: "nat \<Rightarrow> char" where
  "digit d = ''0123456789'' ! d"

fun decimal :: "nat \<Rightarrow> string" where
  "decimal n = (if n < 10 then [digit n] else decimal (n div 10) @ [digit (n mod 10)])"

definition isSafeInteger :: "number \<Rightarrow> bool" where
  "isSafeInteger x \<longleftrightarrow> of_int \<lfloor>x\<rfloor> = x \<and> \<bar>x\<bar> \<le> 9007199254740991"

definition toString :: "number \<Rightarrow> string" where
  "toString x =
     (if isSafeInteger x
      then (if x < 0 then ''-'' else '''') @ decimal (nat \<bar>\<lfloor>x\<rfloor>\<bar>)
      else undefined)"

subsection \<open>The sample steps and the demonstration chains\<close>

text \<open>
  \<^verbatim>\<open>const square = (x) => ({ value: x * x, logs: [`squared ${x}`] })\<close> (lines 71-74) and
  \<^verbatim>\<open>const double = (x) => ({ value: x * 2, logs: [`doubled ${x}`] })\<close> (lines 76-80).
\<close>

definition square :: "number \<Rightarrow> number Logged" where
  "square x = \<lparr>value = x * x, logs = [''squared '' @ toString x]\<rparr>"

definition double :: "number \<Rightarrow> number Logged" where
  "double x = \<lparr>value = x * 2, logs = [''doubled '' @ toString x]\<rparr>"

text \<open>
  \<^verbatim>\<open>const y = bindLogged(bindLogged(returnLogged(5), square), double)\<close> (line 89) and
  \<^verbatim>\<open>const y2 = [square, double].reduce((loggedX, fn) => bindLogged(loggedX, fn),
  returnLogged(5))\<close> (lines 108-114). The constants carry the suffix \<open>_logged\<close>: a
  constant named \<open>y\<close> would capture the variable of that name in every statement.
\<close>

definition y_logged :: "number Logged" where
  "y_logged = bindLogged (bindLogged (returnLogged 5) square) double"

definition y2_logged :: "number Logged" where
  "y2_logged = reduce (\<lambda>loggedX fn. bindLogged loggedX fn) (returnLogged 5) [square, double]"

section \<open>The Maybe combinator\<close>

text \<open>
  \<^verbatim>\<open>type Maybe<T> = T | undefined\<close> (line 125) is an untagged union: a \<open>Maybe<T>\<close> is a
  value of \<open>T\<close> itself or the value \<open>undefined\<close>, with no wrapper object around the
  payload, and \<open>T\<close> is an unconstrained type parameter. The embedding therefore works on
  JavaScript values: \<open>Undefined\<close>, \<open>null\<close>, the booleans, the numbers, the strings, and
  the objects \<open>{value, logs}\<close> that the Logged combinator builds. The type of the
  numbers is the parameter \<open>'n\<close>: \<open>number jsval\<close> has the exact rationals of the
  demonstration chains, and a type of doubles gives the values of the program.
\<close>

datatype 'n jsval =
    Undefined
  | Null
  | Bool bool
  | Num 'n
  | Str string
  | Obj "'n jsval" "string list"

text \<open>\<^verbatim>\<open>const returnMaybe = (value) => value\<close> (line 128).\<close>

definition returnMaybe :: "'n jsval \<Rightarrow> 'n jsval" where
  "returnMaybe v = v"

text \<open>
  \<^verbatim>\<open>const bindMaybe = (wrapped, fn) => wrapped !== undefined ? fn(wrapped) : undefined\<close>
  (lines 134-138). The test is strict inequality with \<open>undefined\<close>, not truthiness.
\<close>

definition bindMaybe :: "'n jsval \<Rightarrow> ('n jsval \<Rightarrow> 'n jsval) \<Rightarrow> 'n jsval" where
  "bindMaybe wrapped fn = (if wrapped \<noteq> Undefined then fn wrapped else Undefined)"

text \<open>
  The arithmetic of the numbers, as far as \<open>divide\<close> uses it, is a parameter: \<open>eq_zero d\<close>
  is the strict comparison \<^verbatim>\<open>d === 0\<close> and \<open>quot x d\<close> is the division \<^verbatim>\<open>x / d\<close>. On the
  doubles \<open>eq_zero\<close> holds of the two zeros and of nothing else (not of \<open>NaN\<close>), and
  \<open>quot\<close> is the IEEE-754 division with its rounding, its infinities and \<open>NaN\<close>.
  \<open>exact_arithmetic\<close> is the arithmetic of the rationals, used for the demonstration
  chains only.
\<close>

record 'n arithmetic =
  eq_zero :: "'n \<Rightarrow> bool"
  quot :: "'n \<Rightarrow> 'n \<Rightarrow> 'n"

definition exact_arithmetic :: "number arithmetic" where
  "exact_arithmetic = \<lparr>eq_zero = (\<lambda>d. d = 0), quot = (\<lambda>x d. x / d)\<rparr>"

text \<open>
  The operators \<open>/\<close> and \<open>+\<close> of the sample steps. Their left operand is the parameter
  \<open>x: number\<close>; the TypeScript signature admits no other argument, and the coercions
  JavaScript would apply to one are not modelled.
\<close>

fun num_quot :: "'n arithmetic \<Rightarrow> 'n jsval \<Rightarrow> 'n \<Rightarrow> 'n jsval" where
  "num_quot ar (Num x) d = Num (quot ar x d)"

fun num_add :: "number jsval \<Rightarrow> number \<Rightarrow> number jsval" where
  "num_add (Num x) n = Num (x + n)"

text \<open>
  \<^verbatim>\<open>const divide = (divisor) => (x) => divisor !== 0 ? x / divisor : undefined\<close>
  (lines 150-154). The call \<open>divide(d)\<close> builds a closure whose environment holds the
  variable \<open>divisor\<close>, bound to \<open>d\<close>. \<open>divide_apply\<close> is one application of the closure to
  \<open>x\<close>: it evaluates the body in the environment and returns the result with the
  environment the body leaves. The body reads \<open>divisor\<close> twice and assigns nothing, and
  no code outside the closure can reach the variable. \<open>divide_with ar d\<close> is the closure
  \<open>divide(d)\<close> as a function of \<open>x\<close>, and \<open>divide_calls\<close> applies one closure to a list of
  dividends in turn, passing the environment from each application to the next.
\<close>

record 'n divide_env =
  divisor :: 'n

definition divide_apply ::
  "'n arithmetic \<Rightarrow> 'n divide_env \<Rightarrow> 'n jsval \<Rightarrow> 'n jsval \<times> 'n divide_env" where
  "divide_apply ar env x =
     ((if \<not> eq_zero ar (divisor env) then num_quot ar x (divisor env) else Undefined), env)"

definition divide_with :: "'n arithmetic \<Rightarrow> 'n \<Rightarrow> 'n jsval \<Rightarrow> 'n jsval" where
  "divide_with ar d x = fst (divide_apply ar \<lparr>divisor = d\<rparr> x)"

fun divide_calls ::
  "'n arithmetic \<Rightarrow> 'n divide_env \<Rightarrow> 'n jsval list \<Rightarrow> 'n jsval list \<times> 'n divide_env" where
  "divide_calls ar env [] = ([], env)"
| "divide_calls ar env (x # xs) =
     (let (r, env1) = divide_apply ar env x;
          (rs, env2) = divide_calls ar env1 xs
      in (r # rs, env2))"

text \<open>
  \<open>divide\<close> in the demonstration chains, on the exact rationals; the name \<open>divide\<close> itself
  is the constant behind HOL's \<open>div\<close>. \<^verbatim>\<open>const whatever = (x) => x + 42\<close> (line 158).
\<close>

definition divideMaybe :: "number \<Rightarrow> number jsval \<Rightarrow> number jsval" where
  "divideMaybe d = divide_with exact_arithmetic d"

definition whatever :: "number jsval \<Rightarrow> number jsval" where
  "whatever x = num_add x 42"

text \<open>
  \<^verbatim>\<open>const z = bindMaybe(bindMaybe(returnMaybe(10), divide(0)), whatever)\<close> (line 161) and
  \<^verbatim>\<open>const z2 = [divide(0), whatever].reduce((maybeX, fn) => bindMaybe(maybeX, fn),
  returnMaybe(10))\<close> (lines 176-179).
\<close>

definition z_maybe :: "number jsval" where
  "z_maybe = bindMaybe (bindMaybe (returnMaybe (Num 10)) (divideMaybe 0)) whatever"

definition z2_maybe :: "number jsval" where
  "z2_maybe =
     reduce (\<lambda>maybeX fn. bindMaybe maybeX fn) (returnMaybe (Num 10)) [divideMaybe 0, whatever]"

subsection \<open>Steps with effects\<close>

text \<open>
  Whether a step function is invoked cannot be read off a pure function's result. A
  JavaScript function may have effects, so the second reading of \<open>bindMaybe\<close> passes a
  state through: a step takes the state and returns the new one, and \<open>bindMaybe\<close> itself
  touches the state only by calling \<open>fn\<close>. A step that is not invoked leaves the state as
  it was, whatever the step would have done to it.
\<close>

type_synonym ('n, 's) effect_step = "'n jsval \<Rightarrow> 's \<Rightarrow> 'n jsval \<times> 's"

definition bindMaybe_st ::
  "'n jsval \<Rightarrow> ('n, 's) effect_step \<Rightarrow> 's \<Rightarrow> 'n jsval \<times> 's" where
  "bindMaybe_st wrapped fn s = (if wrapped \<noteq> Undefined then fn wrapped s else (Undefined, s))"

text \<open>The callback of \<open>reduce\<close>, on an accumulator that carries the state along.\<close>

definition chainMaybe_st ::
  "'n jsval \<times> 's \<Rightarrow> ('n, 's) effect_step \<Rightarrow> 'n jsval \<times> 's" where
  "chainMaybe_st acc fn = bindMaybe_st (fst acc) fn (snd acc)"

text \<open>
  A step without effects, and the invocation-counting stand-in of a step: the state is
  the number of invocations so far.
\<close>

definition pure_step :: "('n jsval \<Rightarrow> 'n jsval) \<Rightarrow> ('n, 's) effect_step" where
  "pure_step f v s = (f v, s)"

definition counted :: "('n jsval \<Rightarrow> 'n jsval) \<Rightarrow> ('n, nat) effect_step" where
  "counted f v n = (f v, Suc n)"

section \<open>Notions of the specification\<close>

text \<open>
  The specification's manual form of a chain,
  \<open>chain(...chain(chain(c, f1), f2)..., fn)\<close>: the outermost call applies the last step
  to the nested chain of the steps before it. \<open>nested_rev\<close> takes the steps last first.
\<close>

fun nested_rev :: "('b \<Rightarrow> 'a \<Rightarrow> 'b) \<Rightarrow> 'b \<Rightarrow> 'a list \<Rightarrow> 'b" where
  "nested_rev chain c [] = c"
| "nested_rev chain c (f # fs) = chain (nested_rev chain c fs) f"

definition manual_nesting :: "('b \<Rightarrow> 'a \<Rightarrow> 'b) \<Rightarrow> 'b \<Rightarrow> 'a list \<Rightarrow> 'b" where
  "manual_nesting chain c fs = nested_rev chain c (rev fs)"

text \<open>
  Applying a lift several times in sequence needs the lift as a function from values to
  values. \<open>returnMaybe\<close> is one already. The container \<open>returnLogged\<close> returns is the
  object \<open>{value, logs}\<close>, so on values \<open>returnLogged\<close> is \<open>returnLogged_js\<close>. The number
  of wrapping layers of a value is the number of nested \<open>{value, logs}\<close> objects around
  its innermost payload.
\<close>

definition fromLogged :: "'n jsval Logged \<Rightarrow> 'n jsval" where
  "fromLogged c = Obj (value c) (logs c)"

definition returnLogged_js :: "'n jsval \<Rightarrow> 'n jsval" where
  "returnLogged_js v = fromLogged (returnLogged v)"

fun wrapping_depth :: "'n jsval \<Rightarrow> nat" where
  "wrapping_depth (Obj v l) = Suc (wrapping_depth v)"
| "wrapping_depth v = 0"


section \<open>Helper lemmas\<close>

lemma value_bindLogged: "value (bindLogged c f) = value (f (value c))"
  by (simp add: bindLogged_def Let_def)

lemma logs_bindLogged: "logs (bindLogged c f) = logs c @ logs (f (value c))"
  by (simp add: bindLogged_def Let_def)

lemma toString_5: "toString 5 = ''5''"
  by (simp add: toString_def isSafeInteger_def digit_def)

lemma toString_25: "toString 25 = ''25''"
  by (simp add: toString_def isSafeInteger_def digit_def)

text \<open>\<open>reduce\<close> on a list split in two, and on a list with one more step at its end.\<close>

lemma reduce_append: "reduce cb acc (xs @ ys) = reduce cb (reduce cb acc xs) ys"
  by (induction xs arbitrary: acc) simp_all

lemma reduce_snoc: "reduce cb acc (xs @ [x]) = cb (reduce cb acc xs) x"
  by (simp add: reduce_append)

lemma reduce_take_nth:
  assumes "k < length xs"
  shows "reduce cb acc xs
    = reduce cb (cb (reduce cb acc (take k xs)) (xs ! k)) (drop (Suc k) xs)"
proof -
  from assms have "xs = take k xs @ xs ! k # drop (Suc k) xs"
    by (simp add: id_take_nth_drop)
  then have "reduce cb acc xs = reduce cb acc (take k xs @ xs ! k # drop (Suc k) xs)"
    by simp
  then show ?thesis
    by (simp add: reduce_append)
qed

text \<open>
  The fold and the manual nesting build the same chain: by induction on the list from its
  end, where the nesting has its outermost call.
\<close>

lemma reduce_eq_manual_nesting: "reduce chain c fs = manual_nesting chain c fs"
  unfolding manual_nesting_def
  by (induction fs rule: rev_induct) (simp_all add: reduce_snoc)

text \<open>An absent accumulator stays absent through every further step.\<close>

lemma reduce_bindMaybe_absent: "reduce bindMaybe Undefined fns = Undefined"
  by (induction fns) (simp_all add: bindMaybe_def)

lemma reduce_chainMaybe_st_absent: "reduce chainMaybe_st (Undefined, s) efs = (Undefined, s)"
  by (induction efs) (simp_all add: chainMaybe_st_def bindMaybe_st_def)

text \<open>On steps without effects the state-passing reading is the pure one.\<close>

lemma bindMaybe_st_pure: "bindMaybe_st w (pure_step f) s = (bindMaybe w f, s)"
  by (simp add: bindMaybe_st_def bindMaybe_def pure_step_def)

lemma reduce_chainMaybe_st_pure:
  "reduce chainMaybe_st (w, s) (map pure_step fns) = (reduce bindMaybe w fns, s)"
  by (induction fns arbitrary: w) (simp_all add: chainMaybe_st_def bindMaybe_st_pure)

text \<open>Counting invocations does not change the value a chain computes.\<close>

lemma fst_bindMaybe_st_counted: "fst (bindMaybe_st w (counted f) n) = bindMaybe w f"
  by (simp add: bindMaybe_st_def bindMaybe_def counted_def)

text \<open>Each \<open>returnLogged\<close> adds one layer; \<open>returnMaybe\<close> adds none.\<close>

lemma wrapping_depth_returnLogged_js:
  "wrapping_depth (returnLogged_js v) = Suc (wrapping_depth v)"
  by (simp add: returnLogged_js_def fromLogged_def returnLogged_def)

lemma wrapping_depth_funpow:
  "wrapping_depth ((returnLogged_js ^^ n) v) = n + wrapping_depth v"
  by (induction n) (simp_all add: wrapping_depth_returnLogged_js)

lemma returnMaybe_funpow: "(returnMaybe ^^ n) v = v"
  by (induction n) (simp_all add: returnMaybe_def)

text \<open>
  Every application of one closure returns the environment it was given, so a sequence
  of applications divides by the same divisor throughout.
\<close>

lemma divide_calls_eq:
  "divide_calls ar env xs = (map (divide_with ar (divisor env)) xs, env)"
proof (induction xs)
  case Nil
  show ?case by simp
next
  case (Cons x xs)
  have "divide_apply ar env x = (divide_with ar (divisor env) x, env)"
    by (simp add: divide_apply_def divide_with_def)
  with Cons show ?case by simp
qed

section \<open>The Logged combinator: claims\<close>

text \<open>
  C5. For every Logged container \<open>c\<close> and every step \<open>f\<close>, \<open>bindLogged c f\<close> has the value
  of \<open>f (value c)\<close>, and its logs are the logs of \<open>c\<close> followed by the logs of
  \<open>f (value c)\<close>: the history first, the new entries after it. For a step that logs
  \<open>["a"]\<close> followed by a step that logs \<open>["b"]\<close>, the two entries are appended in this
  order, and a chain that starts from a lifted value has the log \<open>["a", "b"]\<close> exactly.
\<close>

theorem bindLogged_appends:
  "value (bindLogged c f) = value (f (value c))
   \<and> logs (bindLogged c f) = logs c @ logs (f (value c))
   \<and> ((\<forall>x. logs (f x) = [''a'']) \<and> (\<forall>x. logs (g x) = [''b''])
        \<longrightarrow> logs (bindLogged (bindLogged c f) g) = logs c @ [''a'', ''b'']
          \<and> logs (bindLogged (bindLogged (returnLogged v) f) g) = [''a'', ''b''])"
  by (simp add: value_bindLogged logs_bindLogged returnLogged_def)

theorem bindLogged_appends_witness:
  "logs (bindLogged (bindLogged \<lparr>value = (1::nat), logs = [''start'']\<rparr>
        (\<lambda>x. \<lparr>value = x + 1, logs = [''a'']\<rparr>)) (\<lambda>x. \<lparr>value = x * 2, logs = [''b'']\<rparr>))
     = [''start'', ''a'', ''b'']
   \<and> bindLogged (bindLogged (returnLogged (1::nat))
        (\<lambda>x. \<lparr>value = x + 1, logs = [''a'']\<rparr>)) (\<lambda>x. \<lparr>value = x * 2, logs = [''b'']\<rparr>)
     = \<lparr>value = 4, logs = [''a'', ''b'']\<rparr>"
  using bindLogged_appends [of "\<lparr>value = (1::nat), logs = [''start'']\<rparr>"
      "\<lambda>x. \<lparr>value = x + 1, logs = [''a'']\<rparr>" "\<lambda>x. \<lparr>value = x * 2, logs = [''b'']\<rparr>" 1]
  by (simp add: bindLogged_def returnLogged_def Let_def)

text \<open>
  C8. The demonstration chain \<open>bindLogged (bindLogged (returnLogged 5) square) double\<close> is
  the container with value 50 and logs \<open>["squared 5", "doubled 25"]\<close>. Each sample step
  logs its input and not its output: \<open>double\<close> on 25 returns 50 and logs
  \<open>"doubled 25"\<close>, and on every \<open>x\<close> the entry is the verb followed by the printed \<open>x\<close>.
\<close>

theorem logged_demonstration:
  "y_logged = \<lparr>value = 50, logs = [''squared 5'', ''doubled 25'']\<rparr>
   \<and> value (square 5) = 25 \<and> logs (square 5) = [''squared 5'']
   \<and> value (double 25) = 50 \<and> logs (double 25) = [''doubled 25'']
   \<and> logs (square x) = [''squared '' @ toString x]
   \<and> logs (double x) = [''doubled '' @ toString x]"
  by (simp add: y_logged_def bindLogged_def returnLogged_def square_def double_def Let_def
      toString_5 toString_25)

text \<open>
  C10. Left identity for the Logged combinator: binding a step to a freshly lifted value
  gives exactly what the step gives on that value, the same \<open>value\<close> field and the same
  \<open>logs\<close>, because the lifted container carries the empty log.
\<close>

theorem bindLogged_left_identity:
  "bindLogged (returnLogged v) f = f v
   \<and> value (bindLogged (returnLogged v) f) = value (f v)
   \<and> logs (bindLogged (returnLogged v) f) = logs (f v)"
  by (simp add: bindLogged_def returnLogged_def Let_def)

section \<open>Chains by folding and by nesting\<close>

text \<open>
  C3. For every ordered list of steps and every initial value, folding the chain
  operation from left to right over the list, starting from the lifted value, gives the
  same result as the nested manual application
  \<open>chain(...chain(chain(lift(v), f1), f2)..., fn)\<close>, for \<open>bindLogged\<close> (the same
  container, so the same value and the same logs in the same order) and for \<open>bindMaybe\<close>.
  On three steps the nesting is the manual chain written out, and the demonstration
  constants agree: \<open>y2\<close> is \<open>y\<close> and \<open>z2\<close> is \<open>z\<close>.
\<close>

theorem fold_equals_nesting:
  "reduce (\<lambda>loggedX fn. bindLogged loggedX fn) (returnLogged v) fs
     = manual_nesting bindLogged (returnLogged v) fs
   \<and> reduce (\<lambda>maybeX fn. bindMaybe maybeX fn) (returnMaybe w) gs
     = manual_nesting bindMaybe (returnMaybe w) gs
   \<and> manual_nesting bindLogged (returnLogged v) [f1, f2, f3]
     = bindLogged (bindLogged (bindLogged (returnLogged v) f1) f2) f3
   \<and> manual_nesting bindMaybe (returnMaybe w) [g1, g2, g3]
     = bindMaybe (bindMaybe (bindMaybe (returnMaybe w) g1) g2) g3
   \<and> y2_logged = y_logged \<and> z2_maybe = z_maybe"
  by (simp add: reduce_eq_manual_nesting manual_nesting_def y2_logged_def y_logged_def
      z2_maybe_def z_maybe_def)

section \<open>The Maybe combinator: claims\<close>

text \<open>
  C1, as stated, fails at the payload \<open>undefined\<close>: \<open>returnMaybe\<close> returns its argument,
  so lifting \<open>undefined\<close> gives the absent container, and \<open>bindMaybe\<close> skips the step on
  it (the counting step is not invoked).
\<close>

theorem returnMaybe_undefined_absent:
  "returnMaybe (Undefined :: number jsval) = Undefined
   \<and> bindMaybe (returnMaybe Undefined) whatever = Undefined
   \<and> bindMaybe_st (returnMaybe Undefined) (counted whatever) 0 = (Undefined, 0)"
  by (simp add: returnMaybe_def bindMaybe_def bindMaybe_st_def)

text \<open>
  C1, amended. For every value \<open>v\<close> other than \<open>undefined\<close>, \<open>returnMaybe v\<close> is present
  and holds \<open>v\<close>: it is \<open>v\<close> itself, and \<open>bindMaybe\<close> invokes the step on it. The falsy
  values zero, the empty string, \<open>false\<close> and \<open>null\<close> are among them: lifting zero is
  present, and a step bound to it runs on zero.
\<close>

theorem returnMaybe_present:
  "(v \<noteq> Undefined \<longrightarrow> returnMaybe v \<noteq> Undefined \<and> returnMaybe v = v
      \<and> bindMaybe (returnMaybe v) f = f v)
   \<and> returnMaybe (Num 0) \<noteq> Undefined \<and> bindMaybe (returnMaybe (Num 0)) f = f (Num 0)
   \<and> returnMaybe (Str []) \<noteq> Undefined \<and> returnMaybe (Bool False) \<noteq> Undefined
   \<and> returnMaybe Null \<noteq> Undefined"
  by (simp add: returnMaybe_def bindMaybe_def)

theorem returnMaybe_present_witness:
  "Num (0::number) \<noteq> Undefined \<and> returnMaybe (Num (0::number)) = Num 0
   \<and> bindMaybe (returnMaybe (Num 0)) whatever = Num 42"
  using returnMaybe_present [of "Num 0" whatever]
  by (simp add: whatever_def returnMaybe_def bindMaybe_def)

text \<open>
  C2, as stated, fails for \<open>returnLogged\<close> at \<open>n = 2\<close> and the value 5: the second
  application wraps the container the first one built, giving
  \<open>{value: {value: 5, logs: []}, logs: []}\<close>, which is not \<open>returnLogged(5)\<close>.
\<close>

theorem returnLogged_twice_double_wraps:
  "(returnLogged_js ^^ 2) (Num (5::number)) \<noteq> returnLogged_js (Num 5)
   \<and> (returnLogged_js ^^ 2) (Num (5::number)) = Obj (Obj (Num 5) []) []
   \<and> returnLogged_js (Num (5::number)) = Obj (Num 5) []"
  by (simp add: numeral_2_eq_2 returnLogged_js_def fromLogged_def returnLogged_def)

text \<open>
  C2, amended. \<open>returnMaybe\<close> never double-wraps: any number of consecutive applications
  to \<open>v\<close> gives \<open>returnMaybe v\<close>. \<open>returnLogged\<close> wraps unconditionally: one application
  gives \<open>returnLogged v\<close>, every application adds one layer, so \<open>n\<close> applications are
  \<open>n\<close> layers deeper than \<open>v\<close>, and they equal \<open>returnLogged v\<close> only for \<open>n = 1\<close>. The
  value held by a container lifted twice is the container lifted once.
\<close>

theorem lift_repeated:
  "(returnMaybe ^^ n) v = returnMaybe v
   \<and> (returnLogged_js ^^ 1) v = returnLogged_js v
   \<and> wrapping_depth ((returnLogged_js ^^ n) v) = n + wrapping_depth v
   \<and> ((returnLogged_js ^^ n) v = returnLogged_js v \<longleftrightarrow> n = 1)
   \<and> value (returnLogged (returnLogged u)) = returnLogged u"
proof -
  have "n = 1" if "(returnLogged_js ^^ n) v = returnLogged_js v"
  proof -
    from that
    have "wrapping_depth ((returnLogged_js ^^ n) v) = wrapping_depth (returnLogged_js v)"
      by simp
    then show ?thesis
      by (simp add: wrapping_depth_funpow wrapping_depth_returnLogged_js)
  qed
  then have "(returnLogged_js ^^ n) v = returnLogged_js v \<longleftrightarrow> n = 1"
    by auto
  then show ?thesis
    by (simp add: returnMaybe_funpow returnMaybe_def wrapping_depth_funpow returnLogged_def)
qed

text \<open>
  C6. For every step, \<open>bindMaybe\<close> on the absent container returns absent without
  invoking the step: the result does not depend on the step, and with a step that has
  effects the state is returned untouched. On a present container holding \<open>v\<close> it
  returns exactly what the step returns on \<open>v\<close>, present or absent, with the step's
  effect.
\<close>

theorem bindMaybe_short_circuit:
  "bindMaybe Undefined f = Undefined
   \<and> bindMaybe_st Undefined fn s = (Undefined, s)
   \<and> (v \<noteq> Undefined \<longrightarrow> bindMaybe v f = f v \<and> bindMaybe_st v fn s = fn v s)"
  by (simp add: bindMaybe_def bindMaybe_st_def)

theorem bindMaybe_short_circuit_witness:
  "Num (10::number) \<noteq> Undefined
   \<and> bindMaybe (Num 10) (divideMaybe 5) = Num 2
   \<and> bindMaybe (Num 10) (divideMaybe 0) = Undefined
   \<and> bindMaybe_st (Num 10) (counted whatever) 0 = (Num 52, 1)
   \<and> bindMaybe_st Undefined (counted whatever) 0 = (Undefined, 0)"
  using bindMaybe_short_circuit [of "divideMaybe 5" "counted whatever" 0 "Num 10"]
    bindMaybe_short_circuit [of "divideMaybe 0" "counted whatever" 0 "Num 10"]
  by (simp add: divideMaybe_def divide_with_def divide_apply_def exact_arithmetic_def
      whatever_def counted_def)

text \<open>
  C7. For every divisor \<open>d\<close> and dividend \<open>x\<close>, in every arithmetic of the numbers, the
  closure \<open>divide(d)\<close> applied to \<open>x\<close> returns the present value \<open>x / d\<close> when \<open>d\<close> is not 0
  and absent when \<open>d\<close> is 0. The divisor fixed when the closure is built does not change:
  an application leaves the closure's environment as it found it, so after any sequence
  of applications the divisor is still \<open>d\<close> and every one of them divided by \<open>d\<close>.
\<close>

theorem divide_cases:
  "(\<not> eq_zero ar d \<longrightarrow> divide_with ar d (Num x) = Num (quot ar x d)
      \<and> divide_with ar d (Num x) \<noteq> Undefined)
   \<and> (eq_zero ar d \<longrightarrow> divide_with ar d v = Undefined)
   \<and> snd (divide_apply ar env v) = env
   \<and> divide_calls ar \<lparr>divisor = d\<rparr> vs = (map (divide_with ar d) vs, \<lparr>divisor = d\<rparr>)"
  by (simp add: divide_with_def divide_apply_def divide_calls_eq)

theorem divide_cases_witness:
  "\<not> eq_zero exact_arithmetic (5::number)
   \<and> divide_with exact_arithmetic 5 (Num 10) = Num 2
   \<and> eq_zero exact_arithmetic (0::number)
   \<and> divide_with exact_arithmetic 0 (Num 10) = Undefined
   \<and> divide_calls exact_arithmetic \<lparr>divisor = 5\<rparr> [Num 10, Num 20, Num 5]
       = ([Num 2, Num 4, Num 1], \<lparr>divisor = 5\<rparr>)
   \<and> divide_calls exact_arithmetic \<lparr>divisor = 0\<rparr> [Num 10, Num 20]
       = ([Undefined, Undefined], \<lparr>divisor = 0\<rparr>)"
  using
    divide_cases [of exact_arithmetic 5 10 "Num 10" "\<lparr>divisor = 5\<rparr>"
      "[Num 10, Num 20, Num 5]"]
    divide_cases [of exact_arithmetic 0 10 "Num 10" "\<lparr>divisor = 0\<rparr>" "[Num 10, Num 20]"]
  by (simp add: exact_arithmetic_def divide_with_def divide_apply_def)

text \<open>
  C9. The demonstration chains of the Maybe combinator: dividing 10 by 0 and adding 42 is
  absent; dividing 10 by 5 and adding 42 is present and holds 44.
\<close>

theorem maybe_demonstration:
  "z_maybe = Undefined
   \<and> bindMaybe (bindMaybe (returnMaybe (Num 10)) (divideMaybe 5)) whatever = Num 44"
  by (simp add: z_maybe_def bindMaybe_def returnMaybe_def divideMaybe_def divide_with_def
      divide_apply_def exact_arithmetic_def whatever_def)

text \<open>
  C4. Absence is absorbing. Folding \<open>bindMaybe\<close> over any list of steps from the absent
  container gives absent, by folding or by manual nesting, and with steps that have
  effects the state comes back untouched: none of them is invoked. In a chain from a
  lifted value, when the step at position \<open>k\<close> yields absent, the whole chain is absent
  however many steps follow; with effects, the final state is the state that step \<open>k\<close>
  left, so no step after position \<open>k\<close> is invoked.
\<close>

theorem absence_absorbing:
  "reduce bindMaybe Undefined fns = Undefined
   \<and> manual_nesting bindMaybe Undefined fns = Undefined
   \<and> reduce chainMaybe_st (Undefined, s) efs = (Undefined, s)
   \<and> manual_nesting chainMaybe_st (Undefined, s) efs = (Undefined, s)
   \<and> (j < length fns \<and> (fns ! j) (reduce bindMaybe (returnMaybe v) (take j fns)) = Undefined
      \<longrightarrow> reduce bindMaybe (returnMaybe v) fns = Undefined
        \<and> manual_nesting bindMaybe (returnMaybe v) fns = Undefined)
   \<and> (k < length efs
        \<and> reduce chainMaybe_st (returnMaybe v, s0) (take k efs) = (x, s1)
        \<and> x \<noteq> Undefined \<and> (efs ! k) x s1 = (Undefined, s2)
      \<longrightarrow> reduce chainMaybe_st (returnMaybe v, s0) efs = (Undefined, s2)
        \<and> manual_nesting chainMaybe_st (returnMaybe v, s0) efs = (Undefined, s2))"
proof -
  have pure: "reduce bindMaybe (returnMaybe v) fns = Undefined"
    if "j < length fns" "(fns ! j) (reduce bindMaybe (returnMaybe v) (take j fns)) = Undefined"
  proof -
    have "bindMaybe (reduce bindMaybe (returnMaybe v) (take j fns)) (fns ! j) = Undefined"
      using that(2) by (simp add: bindMaybe_def)
    then show ?thesis
      using reduce_take_nth [OF that(1), of bindMaybe "returnMaybe v"]
      by (simp add: reduce_bindMaybe_absent)
  qed
  have eff: "reduce chainMaybe_st (returnMaybe v, s0) efs = (Undefined, s2)"
    if "k < length efs" "reduce chainMaybe_st (returnMaybe v, s0) (take k efs) = (x, s1)"
      "x \<noteq> Undefined" "(efs ! k) x s1 = (Undefined, s2)"
  proof -
    have "chainMaybe_st (x, s1) (efs ! k) = (Undefined, s2)"
      using that(3,4) by (simp add: chainMaybe_st_def bindMaybe_st_def)
    then show ?thesis
      using reduce_take_nth [OF that(1), of chainMaybe_st "(returnMaybe v, s0)"] that(2)
      by (simp add: reduce_chainMaybe_st_absent)
  qed
  from pure eff show ?thesis
    by (simp add: reduce_bindMaybe_absent reduce_chainMaybe_st_absent
        reduce_eq_manual_nesting [symmetric])
qed

theorem absence_absorbing_witness:
  "(0::nat) < length [counted (divideMaybe 0), counted whatever, counted whatever]
   \<and> reduce chainMaybe_st (returnMaybe (Num 10), 0::nat)
        (take 0 [counted (divideMaybe 0), counted whatever, counted whatever]) = (Num 10, 0)
   \<and> Num (10::number) \<noteq> Undefined
   \<and> ([counted (divideMaybe 0), counted whatever, counted whatever] ! 0) (Num 10) 0
       = (Undefined, 1)
   \<and> reduce chainMaybe_st (returnMaybe (Num 10), 0::nat)
        [counted (divideMaybe 0), counted whatever, counted whatever] = (Undefined, 1)
   \<and> (0::nat) < length [divideMaybe 0, whatever]
   \<and> ([divideMaybe 0, whatever] ! 0) (reduce bindMaybe (returnMaybe (Num 10)) (take 0 [divideMaybe 0, whatever]))
       = Undefined
   \<and> reduce bindMaybe (returnMaybe (Num 10)) [divideMaybe 0, whatever] = Undefined
   \<and> reduce chainMaybe_st (returnMaybe (Num 10), 0::nat)
        [counted (divideMaybe 5), counted whatever, counted whatever] = (Num 86, 3)"
  using absence_absorbing [of "[divideMaybe 0, whatever]" 0
      "[counted (divideMaybe 0), counted whatever, counted whatever]"
      0 "Num 10" 0 0 "Num 10" 0 1]
  by (simp add: returnMaybe_def counted_def divideMaybe_def divide_with_def divide_apply_def
      exact_arithmetic_def whatever_def chainMaybe_st_def
      bindMaybe_st_def bindMaybe_def)

end
